theory Spec2Isabelle
  imports Main "HOL-Library.Sublist"
begin

section \<open>Strings\<close>

text \<open>
  Python's \<open>sub in s\<close> on strings, which is also \<open>s.find(sub) >= 0\<close>: does \<open>sub\<close>
  occur in \<open>s\<close> as a contiguous substring.
\<close>

fun py_in :: "string \<Rightarrow> string \<Rightarrow> bool" where
  "py_in sub [] = (sub = [])"
| "py_in sub (c # cs) = (prefix sub (c # cs) \<or> py_in sub cs)"

section \<open>Data model of the reconciler\<close>

text \<open>The class \<open>DomainsModel\<close>: one configured zone.\<close>

record DomainsModel =
  name :: string
  zone_id :: string
  proxied :: bool
  ttl :: "int option"
  target_domain :: "string option"
  comment :: "string option"
  excluded_sub_domains :: "string list"

text \<open>The dictionary \<open>data\<close> that \<open>update_zones\<close> sends to the provider.\<close>

record payload =
  data_type :: string
  data_name :: string
  data_content :: "string option"
  data_ttl :: int
  data_proxied :: bool
  data_comment :: "string option"

text \<open>A record returned by the provider; the reconciler reads only \<open>record["id"]\<close>.\<close>

datatype dns_record = DnsRecord (record_id: string)

text \<open>
  The three operations of \<open>client.zones.dns_records\<close>. The provider client is an
  external collaborator: it is modelled as a function that answers a call, given the
  calls made before it, either with a list of records or by raising
  \<open>CloudFlareAPIError(code, message)\<close>. What \<open>post\<close> and \<open>put\<close> return is ignored
  by the reconciler.
\<close>

datatype call =
    GET string string
  | POST string payload
  | PUT string string payload

datatype api_result = Returns "dns_record list" | Raises int string

type_synonym provider = "call list \<Rightarrow> call \<Rightarrow> api_result"

text \<open>Exceptions that leave the reconciler.\<close>

datatype exc =
    CloudFlareAPIError int string
  | CloudFlareException string
  | TypeError

text \<open>What the logger receives, by level; the text of each message is kept as its parts.\<close>

datatype level = DEBUG | INFO | WARNING | ERROR

datatype message =
    IgnoringExcluded string string
  | MaxRateLimitReached nat
  | DryRunPost string payload
  | CreatedRecord string payload
  | DryRunPut string string payload
  | UpdatedRecord string string payload
  | ApiErrorMsg string int string

text \<open>
  The effects of the reconciler: the calls that reached the provider (oldest first), the
  log, and the arguments of the \<open>asyncio.sleep\<close> coroutines it created.
\<close>

record world =
  calls :: "call list"
  logs :: "(level \<times> message) list"
  sleeps :: "nat list"

definition do_call :: "provider \<Rightarrow> call \<Rightarrow> world \<Rightarrow> api_result \<times> world" where
  "do_call cl c w = (cl (calls w) c, w\<lparr>calls := calls w @ [c]\<rparr>)"

definition logger :: "level \<Rightarrow> message \<Rightarrow> world \<Rightarrow> world" where
  "logger l m w = w\<lparr>logs := logs w @ [(l, m)]\<rparr>"

definition asyncio_sleep :: "nat \<Rightarrow> world \<Rightarrow> world" where
  "asyncio_sleep t w = w\<lparr>sleeps := sleeps w @ [t]\<rparr>"

text \<open>The object \<open>CloudFlareZones\<close>: its client, its settings and \<open>config["max_retries"]\<close>.\<close>

record CloudFlareZones =
  client :: provider
  dry_run :: bool
  rc_type :: string
  refresh_entries :: bool
  max_retries :: nat

section \<open>The reconciler\<close>

fun is_domain_excluded_loop :: "string \<Rightarrow> string \<Rightarrow> string list \<Rightarrow> world \<Rightarrow> bool \<times> world" where
  "is_domain_excluded_loop host dom_name [] w = (False, w)"
| "is_domain_excluded_loop host dom_name (sub_dom # rest) w =
     (if py_in (sub_dom @ ''.'' @ dom_name) host
      then (True, logger INFO (IgnoringExcluded host sub_dom) w)
      else is_domain_excluded_loop host dom_name rest w)"

definition is_domain_excluded :: "string \<Rightarrow> DomainsModel \<Rightarrow> world \<Rightarrow> bool \<times> world" where
  "is_domain_excluded host d w =
     is_domain_excluded_loop host (name d) (excluded_sub_domains d) w"

text \<open>
  \<open>get_records\<close>: the loop \<open>for retry in range(max_retries)\<close>. A function that ends
  without \<open>return\<close> returns \<open>None\<close> in Python, so the result is an optional list.
\<close>

fun get_records_loop ::
  "CloudFlareZones \<Rightarrow> string \<Rightarrow> string \<Rightarrow> nat list \<Rightarrow> world
    \<Rightarrow> (exc + dns_record list option) \<times> world" where
  "get_records_loop self zid host [] w =
     (Inl (CloudFlareException ''Max retries exceeded''), w)"
| "get_records_loop self zid host (retry # rest) w =
     (case do_call (client self) (GET zid host) w of
        (Returns records, w1) \<Rightarrow> (Inr (Some records), w1)
      | (Raises code msg, w1) \<Rightarrow>
          if \<not> py_in ''Rate limited'' msg then (Inl (CloudFlareAPIError code msg), w1)
          else let sleep_time = 2 ^ (retry + 1)
               in get_records_loop self zid host rest
                    (asyncio_sleep sleep_time (logger WARNING (MaxRateLimitReached sleep_time) w1)))"

definition get_records ::
  "CloudFlareZones \<Rightarrow> string \<Rightarrow> string \<Rightarrow> world \<Rightarrow> (exc + dns_record list option) \<times> world" where
  "get_records self zid host w = get_records_loop self zid host [0..<max_retries self] w"

definition post_record ::
  "CloudFlareZones \<Rightarrow> string \<Rightarrow> payload \<Rightarrow> world \<Rightarrow> exc option \<times> world" where
  "post_record self zid data w =
     (if dry_run self then (None, logger INFO (DryRunPost zid data) w)
      else case do_call (client self) (POST zid data) w of
             (Raises code msg, w1) \<Rightarrow> (Some (CloudFlareAPIError code msg), w1)
           | (Returns _, w1) \<Rightarrow> (None, logger INFO (CreatedRecord zid data) w1))"

definition put_record ::
  "CloudFlareZones \<Rightarrow> string \<Rightarrow> string \<Rightarrow> payload \<Rightarrow> world \<Rightarrow> exc option \<times> world" where
  "put_record self zid rid data w =
     (if dry_run self then (None, logger INFO (DryRunPut zid rid data) w)
      else case do_call (client self) (PUT zid rid data) w of
             (Raises code msg, w1) \<Rightarrow> (Some (CloudFlareAPIError code msg), w1)
           | (Returns _, w1) \<Rightarrow> (None, logger INFO (UpdatedRecord rid zid data) w1))"

text \<open>The loop \<open>for record in records: self.put_record(...)\<close>; an exception ends it.\<close>

fun put_records ::
  "CloudFlareZones \<Rightarrow> string \<Rightarrow> dns_record list \<Rightarrow> payload \<Rightarrow> world \<Rightarrow> exc option \<times> world" where
  "put_records self zid [] data w = (None, w)"
| "put_records self zid (r # rs) data w =
     (case put_record self zid (record_id r) data w of
        (Some e, w1) \<Rightarrow> (Some e, w1)
      | (None, w1) \<Rightarrow> put_records self zid rs data w1)"

text \<open>The dictionary \<open>data\<close> built in \<open>update_zones\<close>, for a zone whose \<open>ttl\<close> is \<open>t\<close>.\<close>

definition record_data :: "CloudFlareZones \<Rightarrow> string \<Rightarrow> DomainsModel \<Rightarrow> int \<Rightarrow> payload" where
  "record_data self host domain_info t =
     \<lparr>data_type = rc_type self, data_name = host,
      data_content = target_domain domain_info, data_ttl = t,
      data_proxied = proxied domain_info, data_comment = comment domain_info\<rparr>"

text \<open>
  The body of the loop of \<open>update_zones\<close> for one zone: the new value of \<open>ok\<close>, or the
  exception that leaves \<open>update_zones\<close>. \<open>int(domain_info.ttl)\<close> raises \<open>TypeError\<close>
  on \<open>None\<close>.
\<close>

definition update_zones_body ::
  "CloudFlareZones \<Rightarrow> string \<Rightarrow> DomainsModel \<Rightarrow> bool \<Rightarrow> world \<Rightarrow> (exc + bool) \<times> world" where
  "update_zones_body self host domain_info ok w =
     (if Some host = target_domain domain_info then (Inr ok, w)
      else if \<not> py_in (name domain_info) host then (Inr ok, w)
      else case is_domain_excluded host domain_info w of
        (True, w1) \<Rightarrow> (Inr ok, w1)
      | (False, w1) \<Rightarrow>
         (case get_records self (zone_id domain_info) host w1 of
            (Inl e, w2) \<Rightarrow> (Inl e, w2)
          | (Inr None, w2) \<Rightarrow> (Inr False, w2)
          | (Inr (Some records), w2) \<Rightarrow>
             (case ttl domain_info of
                None \<Rightarrow> (Inl TypeError, w2)
              | Some t \<Rightarrow>
                 let data = record_data self host domain_info t
                 in (case (if refresh_entries self \<and> length records > 0
                           then put_records self (zone_id domain_info) records data w2
                           else post_record self (zone_id domain_info) data w2) of
                       (None, w3) \<Rightarrow> (Inr ok, w3)
                     | (Some (CloudFlareAPIError code msg), w3) \<Rightarrow>
                         (Inr False, logger ERROR (ApiErrorMsg host code msg) w3)
                     | (Some e, w3) \<Rightarrow> (Inl e, w3)))))"

fun update_zones_loop ::
  "CloudFlareZones \<Rightarrow> string \<Rightarrow> DomainsModel list \<Rightarrow> bool \<Rightarrow> world \<Rightarrow> (exc + bool) \<times> world" where
  "update_zones_loop self host [] ok w = (Inr ok, w)"
| "update_zones_loop self host (domain_info # rest) ok w =
     (case update_zones_body self host domain_info ok w of
        (Inl e, w1) \<Rightarrow> (Inl e, w1)
      | (Inr ok1, w1) \<Rightarrow> update_zones_loop self host rest ok1 w1)"

definition update_zones ::
  "CloudFlareZones \<Rightarrow> string \<Rightarrow> DomainsModel list \<Rightarrow> world \<Rightarrow> (exc + bool) \<times> world" where
  "update_zones self host domain_infos w = update_zones_loop self host domain_infos True w"


section \<open>The synced map\<close>


section \<open>The container poller\<close>

text \<open>
  \<open>re.match(r"traefik.*?\.rule", label)\<close>: the label starts with \<open>traefik\<close>, and
  \<open>.rule\<close> follows after any characters other than a newline.
\<close>

fun dot_star_then :: "string \<Rightarrow> string \<Rightarrow> bool" where
  "dot_star_then pat [] = (pat = [])"
| "dot_star_then pat (c # cs) =
     (prefix pat (c # cs) \<or> (c \<noteq> CHR 0x0A \<and> dot_star_then pat cs))"

definition match_traefik_rule :: "string \<Rightarrow> bool" where
  "match_traefik_rule label =
     (prefix ''traefik'' label \<and> dot_star_then ''.rule'' (drop 7 label))"

text \<open>
  \<open>re.findall(r"Host\(`([^`]+)`\)", value)\<close>: the captures of the matches found from
  left to right, the search resuming after each match.
\<close>

function findall_host :: "string \<Rightarrow> string list" where
  "findall_host [] = []"
| "findall_host (c # cs) =
     (if prefix ''Host(`'' (c # cs) then
        (let rest = drop 6 (c # cs);
             capture = takeWhile (\<lambda>x. x \<noteq> CHR ''`'') rest;
             after = dropWhile (\<lambda>x. x \<noteq> CHR ''`'') rest
         in if capture \<noteq> [] \<and> prefix ''`)'' after
            then capture # findall_host (drop 2 after)
            else findall_host cs)
      else findall_host cs)"
  by pat_completeness auto
termination
proof (relation "measure length")
  fix c :: char and cs rest capture after
  assume "after = dropWhile (\<lambda>x. x \<noteq> CHR ''`'') rest" "rest = drop 6 (c # cs)"
  then have "length after \<le> length (c # cs)"
    using length_dropWhile_le [of "\<lambda>x. x \<noteq> CHR ''`''" rest] by simp
  then show "(drop 2 after, c # cs) \<in> measure length"
    by simp
qed simp_all

text \<open>A container as the poller reads it: its \<open>Id\<close> and its labels, in the dictionary's order.\<close>

record DockerContainer =
  container_id :: "string option"
  labels :: "(string \<times> string) list"

text \<open>The property \<open>DockerContainer.hosts\<close>, over the labels (its debug messages left out).\<close>

fun hosts_loop :: "(string \<times> string) list \<Rightarrow> string list" where
  "hosts_loop [] = []"
| "hosts_loop ((label, v) # rest) =
     (if match_traefik_rule label then hosts_loop rest
      else if \<not> py_in ''Host'' v then hosts_loop rest
      else findall_host v)"

definition hosts :: "DockerContainer \<Rightarrow> string list" where
  "hosts container = hosts_loop (labels container)"

datatype PollerSource = MANUAL | DOCKER | TRAEFIK







section \<open>The proxy-router poller\<close>

datatype json =
    JNull
  | JBool bool
  | JNum int
  | JStr string
  | JArr "json list"
  | JObj "(string \<times> json) list"

datatype route_message = MissingKey | NotEnabled | MissingHost

text \<open>Python's \<open>"Host" not in x\<close> for a JSON value \<open>x\<close>; \<open>None\<close> when it raises \<open>TypeError\<close>.\<close>

fun host_not_in :: "json \<Rightarrow> bool option" where
  "host_not_in (JStr s) = Some (\<not> py_in ''Host'' s)"
| "host_not_in (JArr xs) = Some (JStr ''Host'' \<notin> set xs)"
| "host_not_in (JObj kvs) = Some (''Host'' \<notin> fst ` set kvs)"
| "host_not_in _ = None"

text \<open>
  \<open>TraefikPoller._is_valid_route\<close> (the same in both files), for a route that is a JSON
  object: the result and the debug messages.
\<close>

definition is_valid_route :: "(string \<times> json) list \<Rightarrow> (exc + bool) \<times> route_message list" where
  "is_valid_route route =
     (if list_ex (\<lambda>key. map_of route key = None) [''status'', ''name'', ''rule'']
      then (Inr False, [MissingKey])
      else if map_of route ''status'' \<noteq> Some (JStr ''enabled'') then (Inr False, [NotEnabled])
      else case map_of route ''rule'' of
             None \<Rightarrow> (Inr False, [MissingKey])
           | Some rule \<Rightarrow>
               (case host_not_in rule of
                  None \<Rightarrow> (Inl TypeError, [])
                | Some True \<Rightarrow> (Inr True, [MissingHost])
                | Some False \<Rightarrow> (Inr True, [])))"

section \<open>Predicates of the specification and scenarios\<close>

text \<open>A provider write is a POST or a PUT.\<close>

fun is_write :: "call \<Rightarrow> bool" where
  "is_write (GET _ _) = False"
| "is_write (POST _ _) = True"
| "is_write (PUT _ _ _) = True"


text \<open>
  The three checks that \<open>update_zones\<close> makes before it queries the provider: the
  hostname is not the zone's target, contains the zone's name, and falls under no
  excluded sub domain.
\<close>

definition passes_filter :: "string \<Rightarrow> DomainsModel \<Rightarrow> bool" where
  "passes_filter host d =
     (Some host \<noteq> target_domain d \<and> py_in (name d) host \<and>
      \<not> list_ex (\<lambda>sub_dom. py_in (sub_dom @ ''.'' @ name d) host) (excluded_sub_domains d))"

text \<open>
  A provider that answers its calls from a script, whatever the call is: the answer to
  call number \<open>i\<close> is entry \<open>i\<close> of the script, and an empty list of records once
  the script is used up.
\<close>

definition scripted :: "api_result list \<Rightarrow> provider" where
  "scripted script history c =
     (if length history < length script then script ! length history else Returns [])"

definition w0 :: world where
  "w0 = \<lparr>calls = [], logs = [], sleeps = []\<rparr>"

definition zone1 :: DomainsModel where
  "zone1 = \<lparr>name = ''example.com'', zone_id = ''Z1'', proxied = True, ttl = Some 1,
            target_domain = Some ''target.example.com'', comment = None,
            excluded_sub_domains = []\<rparr>"

definition zone2 :: DomainsModel where
  "zone2 = \<lparr>name = ''example.com'', zone_id = ''Z2'', proxied = False, ttl = Some 300,
            target_domain = Some ''other.example.com'', comment = Some ''second zone'',
            excluded_sub_domains = [''sub'']\<rparr>"

definition reconciler :: "provider \<Rightarrow> bool \<Rightarrow> bool \<Rightarrow> CloudFlareZones" where
  "reconciler cl dry refresh =
     \<lparr>client = cl, dry_run = dry, rc_type = ''CNAME'', refresh_entries = refresh,
      max_retries = 5\<rparr>"





section \<open>Properties of the reconciler\<close>

subsection \<open>Effects on the provider calls\<close>

lemma calls_logger [simp]: "calls (logger l m w) = calls w"
  by (simp add: logger_def)

lemma calls_asyncio_sleep [simp]: "calls (asyncio_sleep t w) = calls w"
  by (simp add: asyncio_sleep_def)

lemma do_call_calls: "do_call cl c w = (r, w1) \<Longrightarrow> calls w1 = calls w @ [c]"
  by (auto simp: do_call_def)


lemma is_domain_excluded_loop_calls:
  "is_domain_excluded_loop host dn subs w = (b, w1) \<Longrightarrow> calls w1 = calls w"
  by (induction subs) (auto split: if_splits)

lemma is_domain_excluded_calls:
  "is_domain_excluded host d w = (b, w1) \<Longrightarrow> calls w1 = calls w"
  unfolding is_domain_excluded_def by (rule is_domain_excluded_loop_calls)



lemma get_records_loop_writes:
  "get_records_loop self zid host rs w = (r, w1) \<Longrightarrow>
     filter is_write (calls w1) = filter is_write (calls w)"
proof (induction rs arbitrary: w)
  case Nil
  then show ?case by simp
next
  case (Cons retry rs)
  then show ?case
    by (auto simp: Let_def dest!: do_call_calls split: prod.splits api_result.splits if_splits)
qed

lemma get_records_writes:
  "get_records self zid host w = (r, w1) \<Longrightarrow>
     filter is_write (calls w1) = filter is_write (calls w)"
  unfolding get_records_def by (rule get_records_loop_writes)

subsection \<open>Dry run\<close>

lemma post_record_dry:
  "dry_run self \<Longrightarrow> post_record self zid data w = (None, logger INFO (DryRunPost zid data) w)"
  by (simp add: post_record_def)

lemma put_record_dry:
  "dry_run self \<Longrightarrow> put_record self zid rid data w = (None, logger INFO (DryRunPut zid rid data) w)"
  by (simp add: put_record_def)

lemma put_records_dry_calls:
  "dry_run self \<Longrightarrow> put_records self zid rs data w = (r, w1) \<Longrightarrow> calls w1 = calls w"
  by (induction rs arbitrary: w) (auto simp: put_record_dry)

lemma update_zones_body_dry_writes:
  assumes "dry_run self" and "update_zones_body self host d ok w = (r, w')"
  shows "filter is_write (calls w') = filter is_write (calls w)"
  using assms(2) unfolding update_zones_body_def
  by (auto simp: post_record_dry [OF assms(1)] Let_def
      dest!: get_records_writes is_domain_excluded_calls put_records_dry_calls [OF assms(1)]
      split: prod.splits sum.splits option.splits bool.splits exc.splits if_splits)

lemma update_zones_loop_dry_writes:
  assumes "dry_run self"
  shows "update_zones_loop self host ds ok w = (r, w') \<Longrightarrow>
     filter is_write (calls w') = filter is_write (calls w)"
proof (induction ds arbitrary: ok w)
  case Nil
  then show ?case by simp
next
  case (Cons d ds)
  then show ?case
    by (auto dest!: update_zones_body_dry_writes [OF assms] split: prod.splits sum.splits)
qed

text \<open>
  C2. When \<open>dry_run\<close> is set, \<open>post_record\<close> and \<open>put_record\<close> return normally, leave
  the calls that reached the provider as they were and add exactly one INFO entry
  naming the intended call; hence a whole run of \<open>update_zones\<close> adds no POST and no
  PUT to the provider's calls, for any hostname, zones, provider and starting state.
\<close>

theorem dry_run_no_provider_write:
  assumes "dry_run self"
  shows "post_record self zid data w = (None, w\<lparr>logs := logs w @ [(INFO, DryRunPost zid data)]\<rparr>)
       \<and> put_record self zid rid data w = (None, w\<lparr>logs := logs w @ [(INFO, DryRunPut zid rid data)]\<rparr>)
       \<and> filter is_write (calls (snd (update_zones self host ds w))) = filter is_write (calls w)"
proof -
  have "filter is_write (calls (snd (update_zones self host ds w))) = filter is_write (calls w)"
    using update_zones_loop_dry_writes [OF assms, of host ds True w]
    by (cases "update_zones_loop self host ds True w") (simp add: update_zones_def)
  then show ?thesis
    using assms by (simp add: post_record_def put_record_def logger_def)
qed

theorem dry_run_no_provider_write_witness:
  "dry_run (reconciler (scripted []) True True)
   \<and> post_record (reconciler (scripted []) True True) ''Z1'' (record_data (reconciler (scripted []) True True) ''dryrun.example.com'' zone1 1) w0
       = (None, w0\<lparr>logs := [(INFO, DryRunPost ''Z1'' (record_data (reconciler (scripted []) True True) ''dryrun.example.com'' zone1 1))]\<rparr>)
   \<and> filter is_write (calls (snd (update_zones (reconciler (scripted []) True True) ''dryrun.example.com'' [zone1] w0))) = []"
  using dry_run_no_provider_write [of "reconciler (scripted []) True True" "''Z1''"
      "record_data (reconciler (scripted []) True True) ''dryrun.example.com'' zone1 1" w0 "''R1''" "''dryrun.example.com''" "[zone1]"]
  by (simp add: reconciler_def w0_def)

subsection \<open>Skipping the target domain\<close>

lemma update_zones_body_target:
  "target_domain d = Some host \<Longrightarrow> update_zones_body self host d ok w = (Inr ok, w)"
  by (simp add: update_zones_body_def)

lemma update_zones_loop_drop_target:
  assumes "target_domain d = Some host"
  shows "update_zones_loop self host (ds1 @ d # ds2) ok w = update_zones_loop self host (ds1 @ ds2) ok w"
proof (induction ds1 arbitrary: ok w)
  case Nil
  show ?case by (simp add: update_zones_body_target [OF assms])
next
  case (Cons a ds1)
  show ?case by (simp add: Cons.IH split: prod.splits sum.splits)
qed

text \<open>
  C7. A zone whose \<open>target_domain\<close> is the hostname is passed over by the loop of
  \<open>update_zones\<close> with the state and \<open>ok\<close> untouched: no GET, POST or PUT, no log
  entry. Hence \<open>update_zones\<close> gives the same result and the same effects with that
  zone in the list, at any position, as without it.
\<close>

theorem target_domain_no_provider_call:
  assumes "target_domain d = Some host"
  shows "update_zones_body self host d ok w = (Inr ok, w)
       \<and> update_zones self host (ds1 @ d # ds2) w = update_zones self host (ds1 @ ds2) w"
  using assms
  by (simp add: update_zones_body_target update_zones_def update_zones_loop_drop_target)

theorem target_domain_no_provider_call_witness:
  "target_domain zone1 = Some ''target.example.com''
   \<and> update_zones (reconciler (scripted []) False True) ''target.example.com'' [zone1] w0 = (Inr True, w0)
   \<and> update_zones (reconciler (scripted []) False True) ''target.example.com'' [zone2, zone1] w0
     = update_zones (reconciler (scripted []) False True) ''target.example.com'' [zone2] w0"
  using target_domain_no_provider_call [of zone1 "''target.example.com''"
      "reconciler (scripted []) False True" True w0 "[]" "[]"]
    target_domain_no_provider_call [of zone1 "''target.example.com''"
      "reconciler (scripted []) False True" True w0 "[zone2]" "[]"]
  by (simp add: zone1_def update_zones_def)

subsection \<open>Reading the records\<close>





subsection \<open>Retries on a rate limit\<close>






subsection \<open>An error of the read that is not a rate limit\<close>

text \<open>
  C8 at a failing input. Two zones accept the hostname; the provider answers the GET
  for the first with an error that is not a rate limit. \<open>update_zones\<close> returns no
  value: the error leaves it as an exception after that one GET, nothing is logged,
  and the second zone is never queried.
\<close>

theorem get_error_leaves_update_zones:
  "passes_filter ''app.example.com'' zone1 \<and> passes_filter ''app.example.com'' zone2
   \<and> update_zones (reconciler (scripted [Raises 1000 ''Internal error'']) False False)
         ''app.example.com'' [zone1, zone2] w0
       = (Inl (CloudFlareAPIError 1000 ''Internal error''),
          \<lparr>calls = [GET ''Z1'' ''app.example.com''], logs = [], sleeps = []\<rparr>)"
  by code_simp

subsection \<open>Create or update\<close>







section \<open>Properties of the synced map\<close>







section \<open>The pollers at inputs where they leave the specification\<close>

text \<open>
  C4 at failing inputs. A container whose only label is a router rule,
  \<open>traefik.http.routers.web.rule\<close> with a \<open>Host\<close> expression, gets no hostname: the
  loop of \<open>hosts\<close> passes over the labels that match \<open>traefik.*\.rule\<close> instead of
  reading them. A container with two labels that are no router rules gets the hostname
  of the first: a label that does not match is read, and the loop returns at the first
  value with \<open>Host\<close>, so the second is never read and no union is formed.
\<close>

theorem hosts_skips_router_rules:
  "match_traefik_rule ''traefik.http.routers.web.rule''
   \<and> hosts \<lparr>container_id = Some ''c1'',
            labels = [(''traefik.http.routers.web.rule'', ''Host(`web.example.com`)'')]\<rparr> = []
   \<and> \<not> match_traefik_rule ''com.example.a'' \<and> \<not> match_traefik_rule ''com.example.b''
   \<and> hosts \<lparr>container_id = Some ''c2'',
            labels = [(''com.example.a'', ''Host(`a.example.com`)''),
                      (''com.example.b'', ''Host(`b.example.com`)'')]\<rparr> = [''a.example.com'']
   \<and> hosts \<lparr>container_id = Some ''c3'',
            labels = [(''traefik.http.routers.a.rule'', ''Host(`a.example.com`)''),
                      (''traefik.http.routers.b.rule'', ''Host(`b.example.com`) || Host(`c.example.com`)'')]\<rparr>
       = []"
  by code_simp


text \<open>
  C9 at a failing input. The route has the three keys and is enabled, and its rule
  has no \<open>Host\<close>: \<open>_is_valid_route\<close> logs that the host is missing and returns true.
\<close>

theorem is_valid_route_without_host:
  "\<not> py_in ''Host'' ''PathPrefix(`/api`)''
   \<and> is_valid_route [(''status'', JStr ''enabled''), (''name'', JStr ''api@docker''),
                      (''rule'', JStr ''PathPrefix(`/api`)'')]
       = (Inr True, [MissingHost])"
  by code_simp

end
